theory Spec2Isabelle
  imports Main "HOL-Library.Word"
begin

section \<open>Data model of the session coordinator (AuthProvider.tsx)\<close>

text \<open>
  The identity provider's \<^verbatim>\<open>User\<close> and \<^verbatim>\<open>Session\<close> are consumed through the fields
  the provider component reads: the user's id, and the session's embedded user and access
  token. A session always embeds a user (the field is not optional).
\<close>

record user =
  id_user :: string

record session =
  access_token :: string
  session_user :: user

record business =
  id_business :: string
  name :: string
  industry :: "string option"
  created_at :: string

record user_subscription =
  id_subscription :: string
  user_id :: string
  plan :: string
  status :: string
  credits :: int
  credits_used :: int
  period_start :: string
  period_end :: string

text \<open>
  What a \<^verbatim>\<open>catch (err)\<close> clause can receive: an instance of the provider's
  \<^verbatim>\<open>AuthError\<close> (a subclass of \<^verbatim>\<open>Error\<close>), any other \<^verbatim>\<open>Error\<close>, each with its
  message, or a value that is no \<^verbatim>\<open>Error\<close> at all.
\<close>

datatype thrown = SupabaseAuthError string | OtherError string | NonError

text \<open>The result of an awaited promise: its value, or the value it rejected with.\<close>

datatype 'a awaited = Fulfilled 'a | Rejected thrown

text \<open>
  The body of an API reply, \<^verbatim>\<open>{success, data}\<close>. \<^verbatim>\<open>data\<close> is missing
  (\<^verbatim>\<open>null\<close>/\<^verbatim>\<open>undefined\<close>, the only falsy values an array or an object-typed field can
  take) or present; an empty array is present.
\<close>

datatype 'a response = Response (success: bool) (data: "'a option")

text \<open>
  Work that a callback starts without awaiting it: the two derived-data loaders (first
  argument of each: the user id), and the zero-delay timer of the event listener.
\<close>

datatype command =
    RunLoadBusinesses string
  | RunLoadSubscription string
  | SetTimeout string

text \<open>
  The eight \<^verbatim>\<open>useState\<close> cells of the component, the browser's \<^verbatim>\<open>localStorage\<close>, and
  the two pieces of state owned by one run of the initialisation effect: its \<^verbatim>\<open>mounted\<close>
  flag and whether its auth-state subscription is still held.
\<close>

record provider =
  user :: "user option"
  session :: "session option"
  isAuthenticated :: bool
  isLoading :: bool
  error :: "string option"
  businesses :: "business list"
  selectedBusiness :: "business option"
  subscription :: "user_subscription option"
  localStorage :: "string \<rightharpoonup> string"
  mounted :: bool
  subscribed :: bool

definition selected_business_key :: string where
  "selected_business_key = ''oslira-selected-business''"

text \<open>
  The state right after the first render and the synchronous part of the effect:
  every cell at its \<^verbatim>\<open>useState\<close> initial value, the flag set, the listener subscribed.
  The storage is whatever an earlier page load left behind.
\<close>

definition initial :: "(string \<rightharpoonup> string) \<Rightarrow> provider" where
  "initial storage =
     \<lparr> user = None, session = None, isAuthenticated = False, isLoading = True,
       error = None, businesses = [], selectedBusiness = None, subscription = None,
       localStorage = storage, mounted = True, subscribed = True \<rparr>"

section \<open>Derived data loaders\<close>

text \<open>
  \<^verbatim>\<open>loadBusinesses\<close>, from the point where the awaited \<^verbatim>\<open>httpClient.get\<close> settles.
  \<open>captured\<close> is the value of \<^verbatim>\<open>selectedBusiness\<close> in the closure of the callback
  (\<^verbatim>\<open>useCallback(..., [selectedBusiness])\<close>): the test \<^verbatim>\<open>!selectedBusiness\<close> reads that
  value, not the cell as it is when the reply arrives. The user id is only logged.
\<close>

definition loadBusinesses ::
  "string \<Rightarrow> business option \<Rightarrow> business list response awaited \<Rightarrow> provider \<Rightarrow> provider" where
  "loadBusinesses userId captured reply s =
     (case reply of
        Fulfilled r \<Rightarrow>
          (case data r of
             Some d \<Rightarrow>
               if success r then
                 (let s1 = s\<lparr>businesses := d\<rparr> in
                  if length d > 0 \<and> captured = None then
                    (case d of
                       firstBusiness # _ \<Rightarrow>
                         s1\<lparr>selectedBusiness := Some firstBusiness,
                            localStorage := (localStorage s1)
                              (selected_business_key \<mapsto> id_business firstBusiness)\<rparr>
                     | [] \<Rightarrow> s1)
                  else s1)
               else s
           | None \<Rightarrow> s)
      | Rejected err \<Rightarrow> s)"

text \<open>
  The free-tier record that \<^verbatim>\<open>loadSubscription\<close> writes in its \<^verbatim>\<open>else\<close> branch and,
  with the same literal, in its \<^verbatim>\<open>catch\<close> branch. \<open>t1\<close> is the clock read by
  \<^verbatim>\<open>new Date()\<close>, \<open>t2\<close> the one read by \<^verbatim>\<open>Date.now()\<close> (milliseconds), and
  \<open>toISOString\<close> the rendering of a millisecond timestamp by \<^verbatim>\<open>Date.prototype.toISOString\<close>.
\<close>

definition free_tier :: "(int \<Rightarrow> string) \<Rightarrow> string \<Rightarrow> int \<Rightarrow> int \<Rightarrow> user_subscription" where
  "free_tier toISOString userId t1 t2 =
     \<lparr> id_subscription = '''', user_id = userId, plan = ''free'', status = ''active'',
       credits = 25, credits_used = 0,
       period_start = toISOString t1,
       period_end = toISOString (t2 + 30 * 24 * 60 * 60 * 1000) \<rparr>"

text \<open>\<^verbatim>\<open>loadSubscription\<close>, from the point where the awaited request settles.\<close>

definition loadSubscription ::
  "(int \<Rightarrow> string) \<Rightarrow> string \<Rightarrow> user_subscription response awaited \<Rightarrow> int \<Rightarrow> int
     \<Rightarrow> provider \<Rightarrow> provider" where
  "loadSubscription toISOString userId reply t1 t2 s =
     (case reply of
        Fulfilled r \<Rightarrow>
          (case data r of
             Some d \<Rightarrow>
               if success r then s\<lparr>subscription := Some d\<rparr>
               else s\<lparr>subscription := Some (free_tier toISOString userId t1 t2)\<rparr>
           | None \<Rightarrow> s\<lparr>subscription := Some (free_tier toISOString userId t1 t2)\<rparr>)
      | Rejected err \<Rightarrow> s\<lparr>subscription := Some (free_tier toISOString userId t1 t2)\<rparr>)"

text \<open>
  \<^verbatim>\<open>refreshBusinesses\<close> and \<^verbatim>\<open>refreshSubscription\<close> start the loader for the current
  user and do nothing without one.
\<close>

definition refreshBusinesses :: "provider \<Rightarrow> command list" where
  "refreshBusinesses s =
     (case user s of Some u \<Rightarrow> [RunLoadBusinesses (id_user u)] | None \<Rightarrow> [])"

definition refreshSubscription :: "provider \<Rightarrow> command list" where
  "refreshSubscription s =
     (case user s of Some u \<Rightarrow> [RunLoadSubscription (id_user u)] | None \<Rightarrow> [])"

section \<open>Selection\<close>

text \<open>
  \<^verbatim>\<open>businesses.find((b) => b.id === businessId)\<close> is the first element with that id,
  \<^const>\<open>List.find\<close>.
\<close>

definition selectBusiness :: "string \<Rightarrow> provider \<Rightarrow> provider" where
  "selectBusiness businessId s =
     (case List.find (\<lambda>b. id_business b = businessId) (businesses s) of
        Some b \<Rightarrow>
          s\<lparr>selectedBusiness := Some b,
            localStorage := (localStorage s)(selected_business_key \<mapsto> id_business b)\<rparr>
      | None \<Rightarrow> s)"

section \<open>Bootstrap\<close>

text \<open>\<^verbatim>\<open>err instanceof Error ? err.message : fallback\<close>\<close>

definition message_if_Error :: "thrown \<Rightarrow> string \<Rightarrow> string" where
  "message_if_Error err fallback =
     (case err of SupabaseAuthError m \<Rightarrow> m | OtherError m \<Rightarrow> m | NonError \<Rightarrow> fallback)"

text \<open>\<^verbatim>\<open>err instanceof SupabaseAuthError ? err.message : fallback\<close>\<close>

definition message_if_AuthError :: "thrown \<Rightarrow> string \<Rightarrow> string" where
  "message_if_AuthError err fallback =
     (case err of SupabaseAuthError m \<Rightarrow> m | OtherError m \<Rightarrow> fallback | NonError \<Rightarrow> fallback)"

text \<open>
  The \<^verbatim>\<open>try\<close> block of \<^verbatim>\<open>initializeAuth\<close> after \<^verbatim>\<open>getSession()\<close> has fulfilled with
  \<^verbatim>\<open>{data: {session: initialSession}, error: sessionError}\<close>. A reported
  \<^verbatim>\<open>sessionError\<close> is logged and not thrown.
\<close>

definition initializeAuth_try ::
  "session option \<Rightarrow> string option \<Rightarrow> provider \<Rightarrow> provider \<times> command list" where
  "initializeAuth_try initialSession sessionError s =
     (if \<not> mounted s then (s, [])
      else
        (case initialSession of
           Some sess \<Rightarrow>
             if sessionError = None then
               (s\<lparr>session := Some sess, user := Some (session_user sess),
                  isAuthenticated := True\<rparr>,
                [RunLoadBusinesses (id_user (session_user sess)),
                 RunLoadSubscription (id_user (session_user sess))])
             else (s\<lparr>session := None, user := None, isAuthenticated := False\<rparr>, [])
         | None \<Rightarrow> (s\<lparr>session := None, user := None, isAuthenticated := False\<rparr>, [])))"

text \<open>The \<^verbatim>\<open>catch\<close> block, entered when \<^verbatim>\<open>getSession()\<close> rejects.\<close>

definition initializeAuth_catch :: "thrown \<Rightarrow> provider \<Rightarrow> provider" where
  "initializeAuth_catch err s =
     (if mounted s then
        s\<lparr>error := Some (message_if_Error err ''Failed to initialize auth''),
          session := None, user := None, isAuthenticated := False\<rparr>
      else s)"

text \<open>The \<^verbatim>\<open>finally\<close> block.\<close>

definition initializeAuth_finally :: "provider \<Rightarrow> provider" where
  "initializeAuth_finally s = (if mounted s then s\<lparr>isLoading := False\<rparr> else s)"

text \<open>\<^verbatim>\<open>initializeAuth\<close> from the point where the awaited \<^verbatim>\<open>getSession()\<close> settles.\<close>

definition initializeAuth ::
  "(session option \<times> string option) awaited \<Rightarrow> provider \<Rightarrow> provider \<times> command list" where
  "initializeAuth fetched s =
     (case fetched of
        Fulfilled (initialSession, sessionError) \<Rightarrow>
          (let (s1, started) = initializeAuth_try initialSession sessionError s
           in (initializeAuth_finally s1, started))
      | Rejected err \<Rightarrow> (initializeAuth_finally (initializeAuth_catch err s), []))"

section \<open>Event listener and teardown\<close>

text \<open>
  The callback given to \<^verbatim>\<open>onAuthStateChange\<close>. The event kind is the provider's
  string; a run of the loaders is deferred with \<^verbatim>\<open>setTimeout(..., 0)\<close> for two kinds.
\<close>

definition onAuthStateChange ::
  "string \<Rightarrow> session option \<Rightarrow> provider \<Rightarrow> provider \<times> command list" where
  "onAuthStateChange event newSession s =
     (if \<not> mounted s then (s, [])
      else
        (case newSession of
           Some ns \<Rightarrow>
             (s\<lparr>session := Some ns, user := Some (session_user ns), isAuthenticated := True\<rparr>,
              if event = ''SIGNED_IN'' \<or> event = ''TOKEN_REFRESHED''
              then [SetTimeout (id_user (session_user ns))] else [])
         | None \<Rightarrow>
             (s\<lparr>session := None, user := None, isAuthenticated := False,
                businesses := [], selectedBusiness := None, subscription := None\<rparr>, [])))"

text \<open>The deferred callback: it starts the two loaders if the flag is still set.\<close>

definition timeout_callback :: "string \<Rightarrow> provider \<Rightarrow> command list" where
  "timeout_callback userId s =
     (if mounted s then [RunLoadBusinesses userId, RunLoadSubscription userId] else [])"

text \<open>The function returned by the effect.\<close>

definition cleanup :: "provider \<Rightarrow> provider" where
  "cleanup s = s\<lparr>mounted := False, subscribed := False\<rparr>"

text \<open>
  The synchronous body of the effect when the framework runs it again (its dependency
  \<^verbatim>\<open>loadBusinesses\<close> is rebuilt whenever \<^verbatim>\<open>selectedBusiness\<close> changes): a fresh flag,
  a fresh subscription, and a new \<^verbatim>\<open>initializeAuth()\<close> in flight.
\<close>

definition effect_setup :: "provider \<Rightarrow> provider" where
  "effect_setup s = s\<lparr>mounted := True, subscribed := True\<rparr>"

section \<open>Actions\<close>

text \<open>
  \<^verbatim>\<open>signInWithOAuth\<close> up to its \<^verbatim>\<open>await\<close>, and from the point where the provider call
  settles. The provider fulfils with \<^verbatim>\<open>{error: signInError}\<close>, an \<^verbatim>\<open>AuthError\<close> or
  null; a non-null one is thrown inside the \<^verbatim>\<open>try\<close> and so reaches the \<^verbatim>\<open>catch\<close>.
  The second component is how the promise returned to the caller settles.
\<close>

definition signInWithOAuth_begin :: "provider \<Rightarrow> provider" where
  "signInWithOAuth_begin s = s\<lparr>isLoading := True, error := None\<rparr>"

definition signInWithOAuth_catch :: "thrown \<Rightarrow> provider \<Rightarrow> provider \<times> unit awaited" where
  "signInWithOAuth_catch err s =
     (s\<lparr>error := Some (message_if_AuthError err ''Failed to sign in with Google''),
        isLoading := False\<rparr>, Rejected err)"

definition signInWithOAuth_settle ::
  "string option awaited \<Rightarrow> provider \<Rightarrow> provider \<times> unit awaited" where
  "signInWithOAuth_settle answer s =
     (case answer of
        Fulfilled None \<Rightarrow> (s\<lparr>isLoading := False\<rparr>, Fulfilled ())
      | Fulfilled (Some m) \<Rightarrow> signInWithOAuth_catch (SupabaseAuthError m) s
      | Rejected err \<Rightarrow> signInWithOAuth_catch err s)"

text \<open>\<^verbatim>\<open>signOut\<close>, in the same two parts.\<close>

definition signOut_begin :: "provider \<Rightarrow> provider" where
  "signOut_begin s = s\<lparr>isLoading := True, error := None\<rparr>"

definition signOut_catch :: "thrown \<Rightarrow> provider \<Rightarrow> provider \<times> unit awaited" where
  "signOut_catch err s =
     (s\<lparr>error := Some (message_if_AuthError err ''Failed to sign out''),
        isLoading := False\<rparr>, Rejected err)"

definition signOut_settle ::
  "string option awaited \<Rightarrow> provider \<Rightarrow> provider \<times> unit awaited" where
  "signOut_settle answer s =
     (case answer of
        Fulfilled None \<Rightarrow>
          (s\<lparr>localStorage := (localStorage s)(selected_business_key := None),
             isLoading := False\<rparr>, Fulfilled ())
      | Fulfilled (Some m) \<Rightarrow> signOut_catch (SupabaseAuthError m) s
      | Rejected err \<Rightarrow> signOut_catch err s)"

section \<open>The coordinator as a transition system\<close>

text \<open>
  Callbacks run to completion one at a time, so each one is a transition. The
  environment decides which callback runs next and with what input: a settled promise,
  a delivered auth event, a fired timer, a call by a consumer. Loader settlements carry
  what the loader's closure holds (\<open>captured\<close>) and the clock reads.
\<close>

datatype event =
    BootstrapSettled "(session option \<times> string option) awaited"
  | AuthStateChange string "session option"
  | TimeoutFired string
  | BusinessesSettled string "business option" "business list response awaited"
  | SubscriptionSettled string "user_subscription response awaited" int int
  | RefreshBusinesses
  | RefreshSubscription
  | SelectBusiness string
  | SignInBegin
  | SignInSettled "string option awaited"
  | SignOutBegin
  | SignOutSettled "string option awaited"
  | Cleanup
  | EffectSetup

fun step :: "(int \<Rightarrow> string) \<Rightarrow> event \<Rightarrow> provider \<Rightarrow> provider \<times> command list" where
  "step toISOString (BootstrapSettled fetched) s = initializeAuth fetched s"
| "step toISOString (AuthStateChange ev newSession) s = onAuthStateChange ev newSession s"
| "step toISOString (TimeoutFired userId) s = (s, timeout_callback userId s)"
| "step toISOString (BusinessesSettled userId captured reply) s =
     (loadBusinesses userId captured reply s, [])"
| "step toISOString (SubscriptionSettled userId reply t1 t2) s =
     (loadSubscription toISOString userId reply t1 t2 s, [])"
| "step toISOString RefreshBusinesses s = (s, refreshBusinesses s)"
| "step toISOString RefreshSubscription s = (s, refreshSubscription s)"
| "step toISOString (SelectBusiness businessId) s = (selectBusiness businessId s, [])"
| "step toISOString SignInBegin s = (signInWithOAuth_begin s, [])"
| "step toISOString (SignInSettled answer) s = (fst (signInWithOAuth_settle answer s), [])"
| "step toISOString SignOutBegin s = (signOut_begin s, [])"
| "step toISOString (SignOutSettled answer) s = (fst (signOut_settle answer s), [])"
| "step toISOString Cleanup s = (cleanup s, [])"
| "step toISOString EffectSetup s = (effect_setup s, [])"

definition fire :: "(int \<Rightarrow> string) \<Rightarrow> event \<Rightarrow> provider \<Rightarrow> provider" where
  "fire toISOString e s = fst (step toISOString e s)"

fun run :: "(int \<Rightarrow> string) \<Rightarrow> event list \<Rightarrow> provider \<Rightarrow> provider" where
  "run toISOString [] s = s"
| "run toISOString (e # es) s = run toISOString es (fire toISOString e s)"

text \<open>The invariant of the authentication triple.\<close>

definition auth_consistent :: "provider \<Rightarrow> bool" where
  "auth_consistent s \<longleftrightarrow> (isAuthenticated s \<longleftrightarrow> session s \<noteq> None \<and> user s \<noteq> None)"

text \<open>A delivered transition that carries no session.\<close>

fun is_sign_out :: "event \<Rightarrow> bool" where
  "is_sign_out (AuthStateChange ev None) = True"
| "is_sign_out _ = False"

text \<open>
  Whether, at the end of a trace, an action has begun and no action has settled since:
  \<open>opn\<close> is the answer before the trace.
\<close>

fun action_open :: "bool \<Rightarrow> event list \<Rightarrow> bool" where
  "action_open opn [] = opn"
| "action_open opn (SignInBegin # es) = action_open True es"
| "action_open opn (SignOutBegin # es) = action_open True es"
| "action_open opn (SignInSettled answer # es) = action_open False es"
| "action_open opn (SignOutSettled answer # es) = action_open False es"
| "action_open opn (e # es) = action_open opn es"

text \<open>The selection, if any, belongs to a non-empty business set.\<close>

definition selection_in_set :: "provider \<Rightarrow> bool" where
  "selection_in_set s \<longleftrightarrow>
     (businesses s \<noteq> [] \<longrightarrow>
        (case selectedBusiness s of Some b \<Rightarrow> b \<in> set (businesses s) | None \<Rightarrow> True))"

text \<open>
  A business load that replaces the set with a non-empty one and, because its closure
  holds a selection, keeps the present selection although the new set lacks it.
\<close>

fun keeps_absent_selection :: "event \<Rightarrow> provider \<Rightarrow> bool" where
  "keeps_absent_selection (BusinessesSettled userId captured (Fulfilled r)) s =
     (success r \<and> captured \<noteq> None \<and>
      (case data r of
         Some d \<Rightarrow> d \<noteq> [] \<and>
           (case selectedBusiness s of Some b \<Rightarrow> b \<notin> set d | None \<Rightarrow> False)
       | None \<Rightarrow> False))"
| "keeps_absent_selection _ s = False"

text \<open>
  The callbacks that one run of the effect owns: the continuation of \<^verbatim>\<open>initializeAuth\<close>,
  the auth-state listener and its deferred timer callback.
\<close>

fun effect_callback :: "event \<Rightarrow> bool" where
  "effect_callback (BootstrapSettled fetched) = True"
| "effect_callback (AuthStateChange ev newSession) = True"
| "effect_callback (TimeoutFired userId) = True"
| "effect_callback _ = False"

text \<open>Sample inputs for the concrete runs below.\<close>

definition sample_session :: session where
  "sample_session = \<lparr> access_token = ''t0'', session_user = \<lparr> id_user = ''u1'' \<rparr> \<rparr>"

definition business_a :: business where
  "business_a = \<lparr> id_business = ''a'', name = ''A'', industry = None, created_at = ''2024'' \<rparr>"

definition business_b :: business where
  "business_b = \<lparr> id_business = ''b'', name = ''B'', industry = None, created_at = ''2025'' \<rparr>"

definition sample_subscription :: user_subscription where
  "sample_subscription =
     \<lparr> id_subscription = ''s1'', user_id = ''u1'', plan = ''pro'', status = ''active'',
       credits = 100, credits_used = 7, period_start = ''p0'', period_end = ''p1'' \<rparr>"

definition sample_clock :: "int \<Rightarrow> string" where
  "sample_clock t = (if t = 0 then ''1970-01-01T00:00:00.000Z''
                     else if t = 2592000000 then ''1970-01-31T00:00:00.000Z'' else ''later'')"

text \<open>
  A first derived-load cycle: bootstrap finds a session, the business request returns
  one business, the subscription request returns the server's record.
\<close>

definition load_cycle :: "event list" where
  "load_cycle =
     [BootstrapSettled (Fulfilled (Some sample_session, None)),
      BusinessesSettled ''u1'' None (Fulfilled (Response True (Some [business_a]))),
      SubscriptionSettled ''u1'' (Fulfilled (Response True (Some sample_subscription))) 0 0]"

section \<open>The Instagram analysis mutation (useInstagramAnalysis.ts)\<close>

text \<open>
  A JavaScript string is a sequence of UTF-16 code units. \<^verbatim>\<open>trim()\<close> strips, at both
  ends, the code points of WhiteSpace and LineTerminator, all of which are single units.
\<close>

type_synonym js_string = "16 word list"

definition isWhiteSpace :: "16 word \<Rightarrow> bool" where
  "isWhiteSpace c \<longleftrightarrow>
     c \<in> {0x0009, 0x000A, 0x000B, 0x000C, 0x000D, 0x0020, 0x00A0, 0x1680,
          0x2028, 0x2029, 0x202F, 0x205F, 0x3000, 0xFEFF}
     \<or> (0x2000 \<le> c \<and> c \<le> 0x200A)"

definition trim :: "js_string \<Rightarrow> js_string" where
  "trim str = rev (dropWhile isWhiteSpace (rev (dropWhile isWhiteSpace str)))"

text \<open>
  \<^verbatim>\<open>replace('@', '')\<close> with a string pattern drops the first \<^verbatim>\<open>@\<close> (unit 0x40) only.
\<close>

definition replace_at :: "js_string \<Rightarrow> js_string" where
  "replace_at str = remove1 0x40 str"

text \<open>
  The value a rejected promise carries is any JavaScript value; the \<^verbatim>\<open>catch (error)\<close>
  clause reads members of it. It is modelled as \<open>'e option\<close>: \<open>None\<close> is \<^verbatim>\<open>null\<close> or
  \<^verbatim>\<open>undefined\<close>, on which a member read raises a TypeError, \<open>Some e\<close> any other value,
  on which a member read yields the member or \<^verbatim>\<open>undefined\<close>.

  How the promise of \<^verbatim>\<open>mutationFn\<close> settles, and what it did on the way: the
  usernames it passed to \<^verbatim>\<open>analyzeInstagramAnonymous\<close> and the errors it handed to the
  \<^verbatim>\<open>onRateLimit\<close> option.
\<close>

datatype ('e, 'r) settlement =
    Resolves 'r
  | Throws_new_Error string
  | Throws_TypeError
  | Rethrows 'e

record ('e, 'r) mutation_run =
  outcome :: "('e, 'r) settlement"
  api_calls :: "js_string list"
  onRateLimit_calls :: "'e list"

text \<open>
  The argument of the first \<^verbatim>\<open>logger.warn\<close> of the \<^verbatim>\<open>catch\<close> block reads
  \<^verbatim>\<open>error.metadata.remaining\<close> and \<^verbatim>\<open>error.metadata.resetIn\<close>: both reads need
  \<^verbatim>\<open>error\<close> and \<^verbatim>\<open>error.metadata\<close> to be neither null nor undefined. \<open>metadata\<close>
  gives the \<^verbatim>\<open>metadata\<close> member of a value, \<open>None\<close> when it is null or undefined.
\<close>

definition reads_rate_limit_metadata :: "('e \<Rightarrow> 'm option) \<Rightarrow> 'e option \<Rightarrow> bool" where
  "reads_rate_limit_metadata metadata err =
     (case err of None \<Rightarrow> False | Some e \<Rightarrow> metadata e \<noteq> None)"

text \<open>
  The argument of the second \<^verbatim>\<open>logger.warn\<close> reads \<^verbatim>\<open>(error as Error).message\<close>; the
  cast is unchecked, so the read needs \<^verbatim>\<open>error\<close> to be neither null nor undefined.
\<close>

definition reads_message :: "'e option \<Rightarrow> bool" where
  "reads_message err = (err \<noteq> None)"

text \<open>
  \<^verbatim>\<open>isRateLimitError\<close> and \<^verbatim>\<open>generateDemoResults\<close> are imported from the API module
  and taken as parameters, as is the behaviour of the one call to
  \<^verbatim>\<open>analyzeInstagramAnonymous\<close> (\<open>Inl\<close>: it rejects with that value) and whether the
  caller supplied \<^verbatim>\<open>options.onRateLimit\<close>.
\<close>

definition mutationFn ::
  "('e option \<Rightarrow> bool) \<Rightarrow> ('e \<Rightarrow> 'm option) \<Rightarrow> (js_string \<Rightarrow> 'r) \<Rightarrow> bool
     \<Rightarrow> (js_string \<Rightarrow> 'e option + 'r) \<Rightarrow> js_string \<Rightarrow> ('e, 'r) mutation_run" where
  "mutationFn isRateLimitError metadata generateDemoResults has_onRateLimit
       analyzeInstagramAnonymous username =
     (let cleanUsername = replace_at (trim username) in
      if cleanUsername = [] then
        \<lparr> outcome = Throws_new_Error ''Please enter an Instagram username'',
          api_calls = [], onRateLimit_calls = [] \<rparr>
      else
        (case analyzeInstagramAnonymous cleanUsername of
           Inr res \<Rightarrow>
             \<lparr> outcome = Resolves res, api_calls = [cleanUsername], onRateLimit_calls = [] \<rparr>
         | Inl err \<Rightarrow>
             if isRateLimitError err then
               (case err of
                  Some e \<Rightarrow>
                    if reads_rate_limit_metadata metadata err then
                      \<lparr> outcome = Rethrows e, api_calls = [cleanUsername],
                        onRateLimit_calls = (if has_onRateLimit then [e] else []) \<rparr>
                    else
                      \<lparr> outcome = Throws_TypeError, api_calls = [cleanUsername],
                        onRateLimit_calls = [] \<rparr>
                | None \<Rightarrow>
                    \<lparr> outcome = Throws_TypeError, api_calls = [cleanUsername],
                      onRateLimit_calls = [] \<rparr>)
             else if reads_message err then
               \<lparr> outcome = Resolves (generateDemoResults cleanUsername),
                 api_calls = [cleanUsername], onRateLimit_calls = [] \<rparr>
             else
               \<lparr> outcome = Throws_TypeError, api_calls = [cleanUsername],
                 onRateLimit_calls = [] \<rparr>))"

section \<open>Unfolding the transitions\<close>

lemmas step_defs =
  fire_def initializeAuth_def initializeAuth_try_def initializeAuth_catch_def
  initializeAuth_finally_def onAuthStateChange_def loadBusinesses_def loadSubscription_def
  selectBusiness_def signInWithOAuth_begin_def signInWithOAuth_settle_def
  signInWithOAuth_catch_def signOut_begin_def signOut_settle_def signOut_catch_def
  cleanup_def effect_setup_def

lemmas sample_defs =
  initial_def sample_session_def business_a_def business_b_def sample_subscription_def
  selected_business_key_def load_cycle_def

section \<open>Scenarios of the specification, run on the model\<close>

text \<open>Scenario A: bootstrap finds no session.\<close>

lemma scenario_no_session:
  "run sample_clock [BootstrapSettled (Fulfilled (None, None))] (initial Map.empty)
     = (initial Map.empty)\<lparr>isLoading := False\<rparr>"
  by (simp add: step_defs sample_defs)

text \<open>
  Scenario B: bootstrap finds a session and the business request returns \<open>a\<close> and \<open>b\<close>:
  both are stored, \<open>a\<close> is selected and its id persisted.
\<close>

lemma scenario_first_business_selected:
  "businesses (run sample_clock
      [BootstrapSettled (Fulfilled (Some sample_session, None)),
       BusinessesSettled ''u1'' None (Fulfilled (Response True (Some [business_a, business_b])))]
      (initial Map.empty)) = [business_a, business_b]
   \<and> selectedBusiness (run sample_clock
      [BootstrapSettled (Fulfilled (Some sample_session, None)),
       BusinessesSettled ''u1'' None (Fulfilled (Response True (Some [business_a, business_b])))]
      (initial Map.empty)) = Some business_a
   \<and> localStorage (run sample_clock
      [BootstrapSettled (Fulfilled (Some sample_session, None)),
       BusinessesSettled ''u1'' None (Fulfilled (Response True (Some [business_a, business_b])))]
      (initial Map.empty)) selected_business_key = Some ''a''"
  by (simp add: step_defs sample_defs)

text \<open>
  Scenario E: a business load started by a sign-in settles after the sign-out
  transition. The load carries no guard, so its reply is applied: the last write wins.
\<close>

lemma scenario_load_settles_after_sign_out:
  "session (run sample_clock
      [AuthStateChange ''SIGNED_IN'' (Some sample_session), TimeoutFired ''u1'',
       AuthStateChange ''SIGNED_OUT'' None,
       BusinessesSettled ''u1'' None (Fulfilled (Response True (Some [business_a])))]
      (initial Map.empty)) = None
   \<and> businesses (run sample_clock
      [AuthStateChange ''SIGNED_IN'' (Some sample_session), TimeoutFired ''u1'',
       AuthStateChange ''SIGNED_OUT'' None,
       BusinessesSettled ''u1'' None (Fulfilled (Response True (Some [business_a])))]
      (initial Map.empty)) = [business_a]
   \<and> selectedBusiness (run sample_clock
      [AuthStateChange ''SIGNED_IN'' (Some sample_session), TimeoutFired ''u1'',
       AuthStateChange ''SIGNED_OUT'' None,
       BusinessesSettled ''u1'' None (Fulfilled (Response True (Some [business_a])))]
      (initial Map.empty)) = Some business_a"
  by (simp add: step_defs sample_defs)

section \<open>Sign-out transition and the persisted key\<close>

text \<open>
  Claim C1, as stated, fails: the listener's handling of a transition without a session
  clears the six cells but never touches the storage. After a load cycle that selected
  business \<open>a\<close> and stored its id, a delivered sign-out transition leaves the selection
  empty and the key \<open>oslira-selected-business\<close> still bound to \<open>a\<close>.
\<close>

theorem C1_sign_out_keeps_key_counterexample:
  "selectedBusiness (run sample_clock (load_cycle @ [AuthStateChange ''SIGNED_OUT'' None])
      (initial Map.empty)) = None
   \<and> localStorage (run sample_clock (load_cycle @ [AuthStateChange ''SIGNED_OUT'' None])
      (initial Map.empty)) selected_business_key = Some ''a''"
  by (simp add: step_defs sample_defs)

text \<open>
  Claim C1, amended. A sign-out transition delivered while the effect is live clears
  \<open>session\<close>, \<open>user\<close>, \<open>isAuthenticated\<close>, \<open>businesses\<close>, \<open>selectedBusiness\<close> and
  \<open>subscription\<close> within its handling, starts no further work, and leaves the storage as
  it was. The persisted key is removed by the \<open>signOut\<close> action instead, when the
  provider's sign-out call reports no error; when that call reports an error or throws,
  the action leaves the storage as it was.
\<close>

theorem C1_sign_out_transition:
  "(mounted s \<longrightarrow>
      onAuthStateChange ev None s =
        (s\<lparr>session := None, user := None, isAuthenticated := False,
           businesses := [], selectedBusiness := None, subscription := None\<rparr>, []))
   \<and> localStorage (fst (onAuthStateChange ev None s)) = localStorage s
   \<and> localStorage (fst (signOut_settle (Fulfilled None) s)) selected_business_key = None
   \<and> localStorage (fst (signOut_settle (Fulfilled (Some m)) s)) = localStorage s
   \<and> localStorage (fst (signOut_settle (Rejected err) s)) = localStorage s"
  by (simp add: onAuthStateChange_def signOut_settle_def signOut_catch_def)

theorem C1_sign_out_transition_witness:
  "mounted (run sample_clock load_cycle (initial Map.empty))
   \<and> fst (onAuthStateChange ''SIGNED_OUT'' None (run sample_clock load_cycle (initial Map.empty)))
       = (initial [selected_business_key \<mapsto> ''a''])\<lparr>isLoading := False\<rparr>
   \<and> localStorage (fst (signOut_settle (Fulfilled None)
        (run sample_clock load_cycle (initial Map.empty)))) selected_business_key = None
   \<and> run sample_clock
        (load_cycle @ [SignOutBegin, AuthStateChange ''SIGNED_OUT'' None,
                       SignOutSettled (Fulfilled None)])
        (initial Map.empty)
       = (initial Map.empty)\<lparr>isLoading := False\<rparr>"
  using C1_sign_out_transition
    [of "run sample_clock load_cycle (initial Map.empty)" "''SIGNED_OUT''"]
  by (simp add: step_defs sample_defs)

section \<open>The subscription after a load cycle\<close>

text \<open>
  Claim C2, as stated, fails: after a completed load cycle the subscription holds the
  server record, and the sign-out transition that follows sets it back to null.
\<close>

theorem C2_subscription_null_after_sign_out_counterexample:
  "subscription (run sample_clock load_cycle (initial Map.empty)) = Some sample_subscription
   \<and> subscription (run sample_clock (load_cycle @ [AuthStateChange ''SIGNED_OUT'' None])
        (initial Map.empty)) = None"
  by (simp add: step_defs sample_defs)

lemma fire_subscription:
  "subscription s \<noteq> None \<Longrightarrow> \<not> is_sign_out e \<Longrightarrow> subscription (fire toISO e s) \<noteq> None"
  by (cases e)
     (auto simp: step_defs Let_def
           split: awaited.splits option.splits list.splits if_splits prod.splits)

lemma run_subscription:
  "subscription s \<noteq> None \<Longrightarrow> \<forall>e\<in>set evs. \<not> is_sign_out e \<Longrightarrow>
     subscription (run toISO evs s) \<noteq> None"
proof (induction evs arbitrary: s)
  case Nil
  then show ?case by simp
next
  case (Cons e es)
  from Cons.prems have "subscription (fire toISO e s) \<noteq> None"
    by (simp add: fire_subscription)
  with Cons.IH [of "fire toISO e s"] Cons.prems show ?case by simp
qed

text \<open>
  Claim C2, amended. When the subscription loader settles, \<open>subscription\<close> is non-null,
  and it stays non-null through every later sequence of transitions that contains no
  sign-out transition (an auth-state change without a session); that transition is the
  one that resets it to null.
\<close>

theorem C2_subscription_until_sign_out:
  "subscription (loadSubscription toISO userId reply t1 t2 s) \<noteq> None
   \<and> ((\<forall>e\<in>set evs. \<not> is_sign_out e) \<longrightarrow>
        subscription (run toISO evs (loadSubscription toISO userId reply t1 t2 s)) \<noteq> None)"
proof -
  have "subscription (loadSubscription toISO userId reply t1 t2 s) \<noteq> None"
    by (auto simp: loadSubscription_def split: awaited.splits option.splits)
  with run_subscription show ?thesis by blast
qed

theorem C2_subscription_until_sign_out_witness:
  "list_all (\<lambda>e. \<not> is_sign_out e)
     [AuthStateChange ''TOKEN_REFRESHED'' (Some sample_session),
      BootstrapSettled (Fulfilled (None, None)), SignOutBegin, Cleanup]
   \<and> subscription
       (run sample_clock
          [AuthStateChange ''TOKEN_REFRESHED'' (Some sample_session),
           BootstrapSettled (Fulfilled (None, None)), SignOutBegin, Cleanup]
          (loadSubscription sample_clock ''u1'' (Fulfilled (Response True None)) 0 0
             (initial Map.empty))) \<noteq> None"
  using C2_subscription_until_sign_out
    [of sample_clock "''u1''" "Fulfilled (Response True None)" 0 0 "initial Map.empty"
        "[AuthStateChange ''TOKEN_REFRESHED'' (Some sample_session),
          BootstrapSettled (Fulfilled (None, None)), SignOutBegin, Cleanup]"]
  by simp

section \<open>Consistency of the authentication triple\<close>

lemma fire_auth_consistent: "auth_consistent s \<Longrightarrow> auth_consistent (fire toISO e s)"
  by (cases e)
     (auto simp: auth_consistent_def step_defs Let_def
           split: awaited.splits option.splits list.splits if_splits prod.splits)

lemma run_auth_consistent: "auth_consistent s \<Longrightarrow> auth_consistent (run toISO evs s)"
  by (induction evs arbitrary: s) (auto intro: fire_auth_consistent)

text \<open>
  Claim C3. After every sequence of transitions from the initial state (bootstrap
  settlement, listener transitions, loader settlements, actions, teardown),
  \<open>isAuthenticated\<close> is true exactly when \<open>session\<close> and \<open>user\<close> are both non-null; and
  each single transition keeps that equivalence from any state that has it.
\<close>

theorem C3_isAuthenticated_iff_session_and_user:
  "(isAuthenticated (run toISO evs (initial storage)) \<longleftrightarrow>
      session (run toISO evs (initial storage)) \<noteq> None
      \<and> user (run toISO evs (initial storage)) \<noteq> None)
   \<and> (auth_consistent s \<longrightarrow> auth_consistent (fire toISO e s))"
  using run_auth_consistent [of "initial storage" toISO evs] fire_auth_consistent [of s toISO e]
  by (simp add: auth_consistent_def initial_def)

theorem C3_isAuthenticated_iff_session_and_user_witness:
  "auth_consistent (initial Map.empty)
   \<and> auth_consistent (fire sample_clock (BootstrapSettled (Fulfilled (Some sample_session, None)))
        (initial Map.empty))
   \<and> isAuthenticated (run sample_clock load_cycle (initial Map.empty))
   \<and> session (run sample_clock load_cycle (initial Map.empty)) = Some sample_session"
  using C3_isAuthenticated_iff_session_and_user
    [of sample_clock load_cycle Map.empty "initial Map.empty"
        "BootstrapSettled (Fulfilled (Some sample_session, None))"]
  by (simp add: auth_consistent_def step_defs sample_defs)

section \<open>Selection: found and not found\<close>

lemma find_id_None:
  "businessId \<notin> id_business ` set bs \<Longrightarrow> List.find (\<lambda>b. id_business b = businessId) bs = None"
  by (induction bs) auto

lemma find_id_Some:
  "businessId \<in> id_business ` set bs \<Longrightarrow>
     \<exists>b. List.find (\<lambda>b. id_business b = businessId) bs = Some b
        \<and> b \<in> set bs \<and> id_business b = businessId"
  by (induction bs) auto

text \<open>
  Claim C6. For every id and business set: when the id is present, \<open>selectBusiness\<close>
  selects a business of the set carrying that id (the first one) and stores the id under
  the key \<open>oslira-selected-business\<close>, touching nothing else; when the id is absent the
  state, including the selection and the error cell, is returned as it was.
\<close>

theorem C6_selectBusiness:
  "(businessId \<in> id_business ` set (businesses s) \<longrightarrow>
      (\<exists>b. List.find (\<lambda>b. id_business b = businessId) (businesses s) = Some b
         \<and> b \<in> set (businesses s) \<and> id_business b = businessId
         \<and> selectBusiness businessId s =
             s\<lparr>selectedBusiness := Some b,
               localStorage := (localStorage s)(selected_business_key \<mapsto> businessId)\<rparr>))
   \<and> (businessId \<notin> id_business ` set (businesses s) \<longrightarrow> selectBusiness businessId s = s)"
proof (intro conjI impI)
  assume "businessId \<in> id_business ` set (businesses s)"
  then obtain b where b: "List.find (\<lambda>b. id_business b = businessId) (businesses s) = Some b"
    "b \<in> set (businesses s)" "id_business b = businessId"
    using find_id_Some by blast
  then show "\<exists>b. List.find (\<lambda>b. id_business b = businessId) (businesses s) = Some b
         \<and> b \<in> set (businesses s) \<and> id_business b = businessId
         \<and> selectBusiness businessId s =
             s\<lparr>selectedBusiness := Some b,
               localStorage := (localStorage s)(selected_business_key \<mapsto> businessId)\<rparr>"
    by (simp add: selectBusiness_def)
next
  assume "businessId \<notin> id_business ` set (businesses s)"
  then show "selectBusiness businessId s = s"
    by (simp add: selectBusiness_def find_id_None)
qed

theorem C6_selectBusiness_witness:
  "''b'' \<in> id_business ` set (businesses ((initial Map.empty)\<lparr>businesses := [business_a, business_b]\<rparr>))
   \<and> selectBusiness ''b'' ((initial Map.empty)\<lparr>businesses := [business_a, business_b]\<rparr>)
       = (initial [selected_business_key \<mapsto> ''b''])
           \<lparr>businesses := [business_a, business_b], selectedBusiness := Some business_b\<rparr>
   \<and> ''zzz'' \<notin> id_business ` set (businesses ((initial Map.empty)\<lparr>businesses := [business_a]\<rparr>))
   \<and> selectedBusiness (selectBusiness ''zzz'' ((initial Map.empty)\<lparr>businesses := [business_a]\<rparr>))
       = None"
  using C6_selectBusiness [of "''b''" "(initial Map.empty)\<lparr>businesses := [business_a, business_b]\<rparr>"]
    C6_selectBusiness [of "''zzz''" "(initial Map.empty)\<lparr>businesses := [business_a]\<rparr>"]
  by (simp add: sample_defs)

section \<open>Bootstrap: failure and absence\<close>

text \<open>
  Claim C4, as stated, fails: when the session fetch comes back with a provider error
  (the \<open>error\<close> member of its reply), bootstrap logs it and leaves \<open>error\<close> null.
\<close>

theorem C4_reported_failure_sets_no_error_counterexample:
  "error (fst (initializeAuth (Fulfilled (None, Some ''Failed to fetch'')) (initial Map.empty)))
     = None"
  by (simp add: step_defs sample_defs)

text \<open>
  Claim C4, amended. In a live coordinator: if the session fetch throws, bootstrap sets
  \<open>error\<close> to the exception's message (or to \<open>Failed to initialize auth\<close> when the thrown
  value is no Error) and forces \<open>session = null\<close>, \<open>user = null\<close>,
  \<open>isAuthenticated = false\<close>; if the fetch returns a provider-reported error, bootstrap
  forces the same unauthenticated shape and leaves \<open>error\<close> as it was; if the fetch
  returns no session and no error, \<open>error\<close> is left as it was too.
\<close>

theorem C4_bootstrap_failure:
  "mounted s \<Longrightarrow>
     (error (fst (initializeAuth (Rejected err) s))
        = Some (message_if_Error err ''Failed to initialize auth'')
      \<and> session (fst (initializeAuth (Rejected err) s)) = None
      \<and> user (fst (initializeAuth (Rejected err) s)) = None
      \<and> \<not> isAuthenticated (fst (initializeAuth (Rejected err) s)))
   \<and> (error (fst (initializeAuth (Fulfilled (initialSession, Some m)) s)) = error s
      \<and> session (fst (initializeAuth (Fulfilled (initialSession, Some m)) s)) = None
      \<and> user (fst (initializeAuth (Fulfilled (initialSession, Some m)) s)) = None
      \<and> \<not> isAuthenticated (fst (initializeAuth (Fulfilled (initialSession, Some m)) s)))
   \<and> (error (fst (initializeAuth (Fulfilled (None, None)) s)) = error s
      \<and> session (fst (initializeAuth (Fulfilled (None, None)) s)) = None
      \<and> user (fst (initializeAuth (Fulfilled (None, None)) s)) = None
      \<and> \<not> isAuthenticated (fst (initializeAuth (Fulfilled (None, None)) s)))"
  by (auto simp: step_defs split: option.splits)

theorem C4_bootstrap_failure_witness:
  "mounted (initial Map.empty)
   \<and> error (fst (initializeAuth (Rejected (OtherError ''Network request failed''))
        (initial Map.empty))) = Some ''Network request failed''
   \<and> error (fst (initializeAuth (Rejected NonError) (initial Map.empty)))
        = Some ''Failed to initialize auth''
   \<and> error (fst (initializeAuth (Fulfilled (None, None)) (initial Map.empty))) = None"
  using C4_bootstrap_failure [of "initial Map.empty" "OtherError ''Network request failed''"]
    C4_bootstrap_failure [of "initial Map.empty" NonError]
  by (simp add: message_if_Error_def sample_defs)

section \<open>Selection and the business set\<close>

text \<open>
  Claim C5, as stated, fails: a business load whose closure holds a selection keeps it
  when it replaces the set. After a first load selected \<open>a\<close>, a refresh whose request
  returns only \<open>b\<close> leaves the non-empty set \<open>[b]\<close> with \<open>a\<close> still selected.
\<close>

theorem C5_selection_outside_set_counterexample:
  "businesses
     (run sample_clock
        (load_cycle @ [RefreshBusinesses,
                       BusinessesSettled ''u1'' (Some business_a)
                         (Fulfilled (Response True (Some [business_b])))])
        (initial Map.empty)) = [business_b]
   \<and> selectedBusiness
     (run sample_clock
        (load_cycle @ [RefreshBusinesses,
                       BusinessesSettled ''u1'' (Some business_a)
                         (Fulfilled (Response True (Some [business_b])))])
        (initial Map.empty)) = Some business_a
   \<and> business_a \<notin> set [business_b]"
  by (simp add: step_defs sample_defs)

text \<open>
  Claim C5, amended. Every transition keeps the property "if the business set is
  non-empty, the selected business (if any) is one of its elements", except a successful
  business load that, its closure holding a selection, keeps the present selection
  while the fetched non-empty set does not contain it. A sign-out transition delivered
  to a live coordinator empties the set and clears the selection together.
\<close>

theorem C5_selection_in_set:
  "(selection_in_set s \<and> \<not> keeps_absent_selection e s \<longrightarrow> selection_in_set (fire toISO e s))
   \<and> (mounted s \<longrightarrow>
        businesses (fire toISO (AuthStateChange ev None) s) = []
        \<and> selectedBusiness (fire toISO (AuthStateChange ev None) s) = None)"
proof (rule conjI)
  show "selection_in_set s \<and> \<not> keeps_absent_selection e s \<longrightarrow> selection_in_set (fire toISO e s)"
    by (cases e)
       (auto simp: selection_in_set_def step_defs Let_def dest: find_Some_iff [THEN iffD1]
             split: awaited.splits option.splits list.splits if_splits prod.splits)
next
  show "mounted s \<longrightarrow>
        businesses (fire toISO (AuthStateChange ev None) s) = []
        \<and> selectedBusiness (fire toISO (AuthStateChange ev None) s) = None"
    by (simp add: step_defs)
qed

theorem C5_selection_in_set_witness:
  "selection_in_set (run sample_clock load_cycle (initial Map.empty))
   \<and> \<not> keeps_absent_selection
         (BusinessesSettled ''u1'' (Some business_a)
            (Fulfilled (Response True (Some [business_b, business_a]))))
         (run sample_clock load_cycle (initial Map.empty))
   \<and> selection_in_set
       (fire sample_clock
          (BusinessesSettled ''u1'' (Some business_a)
             (Fulfilled (Response True (Some [business_b, business_a]))))
          (run sample_clock load_cycle (initial Map.empty)))
   \<and> mounted (run sample_clock load_cycle (initial Map.empty))
   \<and> businesses (fire sample_clock (AuthStateChange ''SIGNED_OUT'' None)
        (run sample_clock load_cycle (initial Map.empty))) = []"
  using C5_selection_in_set
    [of "run sample_clock load_cycle (initial Map.empty)"
        "BusinessesSettled ''u1'' (Some business_a)
           (Fulfilled (Response True (Some [business_b, business_a])))"
        sample_clock "''SIGNED_OUT''"]
  by (simp add: selection_in_set_def step_defs sample_defs)

section \<open>The subscription loader\<close>

text \<open>
  Claim C7. \<open>loadSubscription\<close> stores the server record when the reply has
  \<open>success\<close> and data; it stores the free-tier record (plan \<open>free\<close>, status \<open>active\<close>,
  25 credits, 0 used, a period from the clock read to the clock read plus 30 days in
  milliseconds) when the reply lacks success or data and when the request throws; on
  every path \<open>subscription\<close> is non-null afterwards.
\<close>

theorem C7_loadSubscription:
  "loadSubscription toISO userId (Fulfilled (Response True (Some d))) t1 t2 s
     = s\<lparr>subscription := Some d\<rparr>
   \<and> loadSubscription toISO userId (Fulfilled (Response False dd)) t1 t2 s
     = s\<lparr>subscription := Some (free_tier toISO userId t1 t2)\<rparr>
   \<and> loadSubscription toISO userId (Fulfilled (Response ok None)) t1 t2 s
     = s\<lparr>subscription := Some (free_tier toISO userId t1 t2)\<rparr>
   \<and> loadSubscription toISO userId (Rejected err) t1 t2 s
     = s\<lparr>subscription := Some (free_tier toISO userId t1 t2)\<rparr>
   \<and> subscription (loadSubscription toISO userId reply t1 t2 s) \<noteq> None
   \<and> plan (free_tier toISO userId t1 t2) = ''free''
   \<and> status (free_tier toISO userId t1 t2) = ''active''
   \<and> credits (free_tier toISO userId t1 t2) = 25
   \<and> credits_used (free_tier toISO userId t1 t2) = 0
   \<and> period_start (free_tier toISO userId t1 t2) = toISO t1
   \<and> period_end (free_tier toISO userId t1 t2) = toISO (t2 + 2592000000)"
  by (auto simp: loadSubscription_def free_tier_def split: awaited.splits option.splits)

theorem C7_loadSubscription_witness:
  "subscription (loadSubscription sample_clock ''u1'' (Rejected (OtherError ''Network error'')) 0 0
      (fire sample_clock (BootstrapSettled (Fulfilled (Some sample_session, None)))
         (initial Map.empty)))
   = Some \<lparr> id_subscription = '''', user_id = ''u1'', plan = ''free'', status = ''active'',
            credits = 25, credits_used = 0,
            period_start = ''1970-01-01T00:00:00.000Z'',
            period_end = ''1970-01-31T00:00:00.000Z'' \<rparr>"
  using C7_loadSubscription
    [where toISO = sample_clock and userId = "''u1''" and err = "OtherError ''Network error''"
       and ?t1.0 = 0 and ?t2.0 = 0
       and s = "fire sample_clock (BootstrapSettled (Fulfilled (Some sample_session, None)))
                  (initial Map.empty)"]
  by (simp add: free_tier_def sample_clock_def)

section \<open>The loading flag\<close>

lemma fire_isLoading:
  "isLoading (fire toISO e s) \<Longrightarrow> isLoading s \<longrightarrow> opn \<Longrightarrow>
     (case e of SignInBegin \<Rightarrow> True | SignOutBegin \<Rightarrow> True
      | SignInSettled a \<Rightarrow> False | SignOutSettled a \<Rightarrow> False | _ \<Rightarrow> opn)"
  by (cases e)
     (auto simp: step_defs Let_def
           split: awaited.splits option.splits list.splits if_splits prod.splits)

lemma run_isLoading:
  "isLoading (run toISO evs s) \<Longrightarrow> isLoading s \<longrightarrow> opn \<Longrightarrow> action_open opn evs"
proof (induction evs arbitrary: s opn)
  case Nil
  then show ?case by simp
next
  case (Cons e es)
  have rest: "isLoading (run toISO es (fire toISO e s))"
    using Cons.prems(1) by simp
  show ?case
  proof (cases "isLoading (fire toISO e s)")
    case True
    from fire_isLoading [OF True Cons.prems(2)] Cons.IH [OF rest]
    show ?thesis by (cases e) auto
  next
    case False
    with Cons.IH [OF rest] show ?thesis by (cases e) auto
  qed
qed

text \<open>
  Claim C8. In a live coordinator, whatever the session fetch gave (a session, none, a
  reported error, a thrown exception): the \<open>try\<close> and \<open>catch\<close> blocks of bootstrap leave
  \<open>isLoading\<close> alone and the \<open>finally\<close> block, its last step, sets it to false; after
  that, at the end of any sequence of transitions, \<open>isLoading\<close> is true only if a
  \<open>signInWithOAuth\<close> or \<open>signOut\<close> action has begun and no action has settled since.
  Each action sets the flag when it begins and resets it to false when it settles,
  whether the provider call succeeded, reported an error or threw.
\<close>

theorem C8_isLoading:
  "mounted s \<Longrightarrow>
     isLoading (fst (initializeAuth_try initialSession sessionError s)) = isLoading s
   \<and> isLoading (initializeAuth_catch err s) = isLoading s
   \<and> \<not> isLoading (initializeAuth_finally s)
   \<and> \<not> isLoading (fst (initializeAuth fetched s))
   \<and> (isLoading (run toISO evs (fire toISO (BootstrapSettled fetched) s))
        \<longrightarrow> action_open False evs)
   \<and> isLoading (signInWithOAuth_begin s') \<and> isLoading (signOut_begin s')
   \<and> \<not> isLoading (fst (signInWithOAuth_settle answer s'))
   \<and> \<not> isLoading (fst (signOut_settle answer s'))"
proof -
  assume live: "mounted s"
  have settled: "\<not> isLoading (fst (initializeAuth fetched s))"
    using live by (auto simp: step_defs Let_def split: awaited.splits option.splits prod.splits)
  have later: "isLoading (run toISO evs (fire toISO (BootstrapSettled fetched) s))
        \<longrightarrow> action_open False evs"
    using settled run_isLoading [of toISO evs "fire toISO (BootstrapSettled fetched) s" False]
    by (simp add: fire_def)
  have body: "isLoading (fst (initializeAuth_try initialSession sessionError s)) = isLoading s"
    by (simp add: initializeAuth_try_def split: option.splits)
  have exits: "\<not> isLoading (fst (signInWithOAuth_settle answer s'))"
    "\<not> isLoading (fst (signOut_settle answer s'))"
    by (auto simp: step_defs split: awaited.splits option.splits)
  show ?thesis using live settled later body exits
    by (simp add: initializeAuth_catch_def initializeAuth_finally_def
          signInWithOAuth_begin_def signOut_begin_def)
qed

theorem C8_isLoading_witness:
  "mounted (initial Map.empty)
   \<and> isLoading (initial Map.empty)
   \<and> \<not> isLoading (fst (initializeAuth (Rejected NonError) (initial Map.empty)))
   \<and> isLoading (run sample_clock [SelectBusiness ''a'', SignOutBegin, Cleanup]
        (fire sample_clock (BootstrapSettled (Rejected NonError)) (initial Map.empty)))
   \<and> action_open False [SelectBusiness ''a'', SignOutBegin, Cleanup]
   \<and> \<not> isLoading (run sample_clock
        [SelectBusiness ''a'', SignOutBegin, Cleanup,
         SignOutSettled (Fulfilled (Some ''Sign out refused''))]
        (fire sample_clock (BootstrapSettled (Rejected NonError)) (initial Map.empty)))"
  using C8_isLoading
    [where s = "initial Map.empty" and fetched = "Rejected NonError" and toISO = sample_clock
       and evs = "[SelectBusiness ''a'', SignOutBegin, Cleanup]"]
  by (simp add: step_defs sample_defs)

section \<open>Teardown\<close>

lemma fire_unmounted:
  "\<not> mounted s \<Longrightarrow> effect_callback e \<Longrightarrow> fire toISO e s = s"
  by (cases e)
     (auto simp: step_defs Let_def split: awaited.splits option.splits prod.splits)

lemma run_unmounted:
  "\<not> mounted s \<Longrightarrow> \<forall>e\<in>set evs. effect_callback e \<Longrightarrow> run toISO evs s = s"
  by (induction evs) (simp_all add: fire_unmounted)

text \<open>
  Claim C9. After the effect's cleanup has run, the continuation of bootstrap returns
  the state as it is and starts no loader, whatever the session fetch settles with; the
  listener returns the state as it is and schedules nothing, whatever transition it
  receives; a timer scheduled earlier starts no loader; and so any sequence of such
  callbacks leaves the whole state unchanged.
\<close>

theorem C9_teardown:
  "\<not> mounted (cleanup s)
   \<and> initializeAuth fetched (cleanup s) = (cleanup s, [])
   \<and> onAuthStateChange ev newSession (cleanup s) = (cleanup s, [])
   \<and> timeout_callback userId (cleanup s) = []
   \<and> ((\<forall>e\<in>set evs. effect_callback e) \<longrightarrow> run toISO evs (cleanup s) = cleanup s)"
proof -
  have down: "\<not> mounted (cleanup s)"
    by (simp add: cleanup_def)
  have "initializeAuth fetched (cleanup s) = (cleanup s, [])"
    using down
    by (auto simp: initializeAuth_def initializeAuth_try_def initializeAuth_catch_def
          initializeAuth_finally_def split: awaited.splits)
  moreover have "onAuthStateChange ev newSession (cleanup s) = (cleanup s, [])"
    using down by (simp add: onAuthStateChange_def)
  moreover have "timeout_callback userId (cleanup s) = []"
    using down by (simp add: timeout_callback_def)
  ultimately show ?thesis
    using down run_unmounted [of "cleanup s" evs toISO] by blast
qed

theorem C9_teardown_witness:
  "list_all effect_callback
     [BootstrapSettled (Fulfilled (Some sample_session, None)),
      AuthStateChange ''SIGNED_IN'' (Some sample_session),
      TimeoutFired ''u1'', AuthStateChange ''SIGNED_OUT'' None,
      BootstrapSettled (Rejected NonError)]
   \<and> run sample_clock
       [BootstrapSettled (Fulfilled (Some sample_session, None)),
        AuthStateChange ''SIGNED_IN'' (Some sample_session),
        TimeoutFired ''u1'', AuthStateChange ''SIGNED_OUT'' None,
        BootstrapSettled (Rejected NonError)]
       (cleanup (initial Map.empty))
     = (initial Map.empty)\<lparr>mounted := False, subscribed := False\<rparr>"
  using C9_teardown
    [where s = "initial Map.empty" and toISO = sample_clock
       and evs = "[BootstrapSettled (Fulfilled (Some sample_session, None)),
                   AuthStateChange ''SIGNED_IN'' (Some sample_session),
                   TimeoutFired ''u1'', AuthStateChange ''SIGNED_OUT'' None,
                   BootstrapSettled (Rejected NonError)]"]
  by (simp add: cleanup_def)

section \<open>The analysis mutation\<close>

text \<open>
  What the mutation does on each path, with \<open>cleanUsername\<close> the input trimmed and
  stripped of its first \<open>@\<close>. An empty one: a new Error, no API call. A non-empty one
  whose API call rejects with a value other than null or undefined: demo results when
  the value is no rate-limit error, the value thrown again when it is one and carries
  its metadata. A rejection with null or undefined: a TypeError from the read of
  \<open>message\<close> (or of \<open>metadata\<close>), whatever \<open>isRateLimitError\<close> answers.
\<close>

lemma mutationFn_paths:
  "(replace_at (trim username) = [] \<longrightarrow>
      outcome (mutationFn isRateLimitError metadata generateDemoResults has_cb api username)
        = Throws_new_Error ''Please enter an Instagram username''
      \<and> api_calls (mutationFn isRateLimitError metadata generateDemoResults has_cb api username)
        = [])
   \<and> (replace_at (trim username) \<noteq> [] \<longrightarrow>
        (\<forall>e. api (replace_at (trim username)) = Inl (Some e) \<longrightarrow>
           (\<not> isRateLimitError (Some e) \<longrightarrow>
              outcome (mutationFn isRateLimitError metadata generateDemoResults has_cb api username)
                = Resolves (generateDemoResults (replace_at (trim username))))
         \<and> (isRateLimitError (Some e) \<and> metadata e \<noteq> None \<longrightarrow>
              outcome (mutationFn isRateLimitError metadata generateDemoResults has_cb api username)
                = Rethrows e))
        \<and> (api (replace_at (trim username)) = Inl None \<longrightarrow>
              outcome (mutationFn isRateLimitError metadata generateDemoResults has_cb api username)
                = Throws_TypeError))"
  by (auto simp: mutationFn_def Let_def reads_message_def reads_rate_limit_metadata_def)

text \<open>
  Claim C10: an empty cleaned username raises without an API call; for a non-empty one,
  an API failure that is no rate-limit error makes the mutation resolve with demo
  results, and a rate-limit error is raised again. The code misses one case of the
  second part. For the username \<open>@na\<close>, cleaned to \<open>na\<close>, and an API call that rejects
  with \<open>undefined\<close>, which is no rate-limit error, the mutation does call the API and
  then raises a TypeError: it reads \<open>message\<close> of the rejection value before it builds
  the demo results, which it never returns.
\<close>

theorem C10_undefined_rejection_raises_TypeError:
  "replace_at (trim [0x40, 0x6E, 0x61]) = [0x6E, 0x61]
   \<and> api_calls (mutationFn (\<lambda>err. err = Some (429::nat)) (\<lambda>e. Some ()) (\<lambda>u. u @ [0x21])
        False (\<lambda>u. Inl None) [0x40, 0x6E, 0x61]) = [[0x6E, 0x61]]
   \<and> outcome (mutationFn (\<lambda>err. err = Some (429::nat)) (\<lambda>e. Some ()) (\<lambda>u. u @ [0x21])
        False (\<lambda>u. Inl None) [0x40, 0x6E, 0x61])
       = (Throws_TypeError :: (nat, js_string) settlement)
   \<and> outcome (mutationFn (\<lambda>err. err = Some (429::nat)) (\<lambda>e. Some ()) (\<lambda>u. u @ [0x21])
        False (\<lambda>u. Inl None) [0x40, 0x6E, 0x61])
       \<noteq> Resolves [0x6E, 0x61, 0x21]"
  by (simp add: mutationFn_def trim_def replace_at_def isWhiteSpace_def reads_message_def)

text \<open>
  The same call with a rejection that is an ordinary value resolves with the demo
  results, and with the rate-limit value it raises that value again.
\<close>

lemma mutationFn_ordinary_rejections:
  "outcome (mutationFn (\<lambda>err. err = Some (429::nat)) (\<lambda>e. Some ()) (\<lambda>u. u @ [0x21])
        False (\<lambda>u. Inl (Some 500)) [0x40, 0x6E, 0x61])
       = Resolves [0x6E, 0x61, 0x21]
   \<and> outcome (mutationFn (\<lambda>err. err = Some (429::nat)) (\<lambda>e. Some ()) (\<lambda>u. u @ [0x21])
        False (\<lambda>u. Inl (Some 429)) [0x40, 0x6E, 0x61])
       = (Rethrows 429 :: (nat, js_string) settlement)
   \<and> outcome (mutationFn (\<lambda>err. err = Some (429::nat)) (\<lambda>e. Some ()) (\<lambda>u. u @ [0x21])
        False (\<lambda>u. Inl (Some 500)) [0x20, 0x40, 0x09])
       = (Throws_new_Error ''Please enter an Instagram username'' :: (nat, js_string) settlement)"
  by (simp add: mutationFn_def trim_def replace_at_def isWhiteSpace_def reads_message_def
        reads_rate_limit_metadata_def)

end
